theory Spec2Isabelle
  imports Complex_Main "HOL-Library.Word" "HOL-Library.Sublist"
begin

unbundle bit_operations_syntax

section \<open>Python values, messages and exceptions\<close>

text \<open>
  The adapter in \<^verbatim>\<open>pyqgiswps/executors/processingio.py\<close> moves dynamically typed
  values between the WPS layer and QGIS processing.  A submitted datum, a default value
  or a metadata value can be any Python object; the shapes the code inspects are kept
  apart here.  A \<^verbatim>\<open>QVariant\<close> carries its null flag and its wrapped value.
\<close>

datatype pyval =
    PNone
  | PBool bool
  | PInt int
  | PFloat rat
  | PStr string
  | PList "pyval list"
  | QVariant bool pyval

text \<open>The six components of \<^verbatim>\<open>urllib.parse.ParseResult\<close>.\<close>

record url =
  scheme :: string
  netloc :: string
  path :: string
  params :: string
  query :: string
  fragment :: string

text \<open>
  The classes the code tests with \<^verbatim>\<open>isinstance\<close>; \<open>QgsProcessingParameterDefinition\<close>,
  the base class, stands for every class it does not test for (an enum or a string
  parameter, say).  The code tests the class and the string returned by \<^verbatim>\<open>type()\<close>
  independently of each other, so a descriptor carries both.
\<close>

datatype param_class =
    QgsProcessingParameterFeatureSink
  | QgsProcessingParameterVectorDestination
  | QgsProcessingParameterRasterDestination
  | QgsProcessingParameterFileDestination
  | QgsProcessingParameterFeatureSource
  | QgsProcessingParameterVectorLayer
  | QgsProcessingParameterRasterLayer
  | QgsProcessingParameterMapLayer
  | QgsProcessingParameterMultipleLayers
  | QgsProcessingParameterPoint
  | QgsProcessingParameterFile
  | QgsProcessingParameterField
  | QgsProcessingParameterNumber
  | QgsProcessingParameterDefinition

text \<open>
  Messages are kept as the format string and its arguments, the way the code hands
  them to \<^verbatim>\<open>%\<close> and to the logger.
\<close>

datatype fmt_arg =
    AStr string
  | AVal pyval
  | AUrl url
  | AQuery "(string \<times> string list) list"
  | AClass param_class
  | ATraceback

datatype message = Msg string "fmt_arg list"

text \<open>The piece \<^verbatim>\<open>'%s'\<close> of a format string, with its two apostrophes.\<close>

definition quoted_s :: string where
  "quoted_s = [CHR 0x27] @ ''%s'' @ [CHR 0x27]"

datatype error =
    InvalidParameterValue message
  | NoApplicableCode message
  | ProcessingInputTypeNotSupported message
  | ProcessingOutputTypeNotSupported message
  | IndexError
  | KeyError
  | ValueError
  | TypeError
  | AttributeError
  | FileNotFoundError

datatype log_record =
    LogDebug message
  | LogWarning message
  | LogError message

section \<open>Native descriptors of the processing framework\<close>

text \<open>\<^verbatim>\<open>QgsProcessing.SourceType\<close>; the eight values that are keys of \<^verbatim>\<open>SourceTypes\<close>, and any other.\<close>

datatype source_type =
    TypeMapLayer
  | TypeVectorAnyGeometry
  | TypeVectorPoint
  | TypeVectorLine
  | TypeVectorPolygon
  | TypeRaster
  | TypeFile
  | TypeVector
  | TypeOther int

datatype number_type = Integer | Double

datatype field_type = FieldAny | FieldNumeric | FieldString | FieldDateTime | FieldOther int

datatype file_behavior = File | Folder

record param =
  p_class :: param_class
  p_type :: string
  p_name :: string
  p_description :: string
  p_flags :: int
  p_defaultValue :: pyval
  p_metadata :: "(string \<times> pyval) list"
  p_options :: "string list"
  p_allowMultiple :: bool
  p_numberType :: number_type
  p_minimum :: pyval
  p_maximum :: pyval
  p_fieldType :: field_type
  p_parentLayerParameterName :: string
  p_sinkDataType :: source_type
  p_behavior :: file_behavior
  p_extension :: string
  p_defaultFileExtension :: string
  p_minimumNumberInputs :: int
  p_layerType :: source_type
  p_limitedDataTypes :: "source_type list option"
  p_supportsNonFileBasedOutput :: bool

text \<open>
  The classes of output definitions; \<open>QgsProcessingOutputDefinition\<close> stands for every
  class not named here.
\<close>

datatype out_class =
    QgsProcessingOutputVectorLayer
  | QgsProcessingOutputRasterLayer
  | QgsProcessingOutputMapLayer
  | QgsProcessingOutputMultipleLayers
  | QgsProcessingOutputHtml
  | QgsProcessingOutputFile
  | QgsProcessingOutputFolder
  | QgsProcessingOutputDefinition

record outdef =
  o_class :: out_class
  o_type :: string
  o_name :: string
  o_description :: string

text \<open>An algorithm, as far as the adapter uses it: the lookup of a parameter by name.\<close>

record algorithm =
  parameterDefinition :: "string \<rightharpoonup> param"

section \<open>Protocol descriptors\<close>

datatype meta_value = MStr string | MStrOf pyval | MStrOfSourceType source_type

datatype metadata = Metadata string meta_value

datatype format = Format "string option" | FORMATS_GEOJSON | FORMATS_GML

datatype allowed = AllowedValues "string list" | AllowedRange pyval pyval

text \<open>
  The keyword arguments collected for the constructor of a protocol input.  A key the
  code never sets is \<open>None\<close>, and the constructor's own default applies.
\<close>

record kwargs =
  kw_identifier :: string
  kw_title :: string
  kw_abstract :: string
  kw_metadata :: "metadata list"
  kw_default :: pyval
  kw_min_occurs :: "int option"
  kw_max_occurs :: "int option"
  kw_data_type :: "string option"
  kw_allowed_values :: "allowed option"
  kw_supported_formats :: "format list option"
  kw_crss :: "string list option"

datatype wps_input =
    LiteralInput kwargs
  | ComplexInput kwargs
  | BoundingBoxInput kwargs

record out_kwargs =
  ok_identifier :: string
  ok_title :: string
  ok_abstract :: string
  ok_data_type :: "string option"
  ok_supported_formats :: "format list option"
  ok_as_reference :: "pyval option"

datatype wps_output =
    LiteralOutput out_kwargs
  | ComplexOutput out_kwargs

section \<open>Collaborators outside the module\<close>

text \<open>
  A submitted protocol value: its raw data, and for the values that carry them the
  coordinate reference and the MIME type of the declared format.
\<close>

record wps_value =
  data :: pyval
  crs :: pyval
  mime_type :: string

datatype layer_type = VectorLayer | RasterLayer | PluginLayer | MeshLayer

datatype geometry_type = PointGeometry | LineGeometry | PolygonGeometry | UnknownGeometry | NullGeometry

text \<open>A live layer of the project, with the identifiers of its currently selected features.\<close>

record layer =
  l_name :: string
  l_type :: layer_type
  l_geometryType :: geometry_type
  l_selectedFeatureIds :: "int set"

datatype qgs_project = QgsProject string

record map_context =
  project_layers :: "layer list"

record processing_context =
  resolve_path :: "string \<Rightarrow> error + string"
  getMapLayer :: "string \<rightharpoonup> layer"
  destination_project :: qgs_project
  workdir :: string

datatype native =
    PyValue pyval
  | QgsProcessingOutputLayerDefinition string qgs_project pyval
  | QgsProcessingFeatureSourceDefinition string bool
  | QgsReferencedRectangle "pyval list" pyval
  | QgsReferencedPointXY string string
  | QgsGeometry string

text \<open>
  What the module takes from the Python standard library (\<^verbatim>\<open>urlparse\<close>, \<^verbatim>\<open>parse_qs\<close>,
  \<^verbatim>\<open>mimetypes.types_map\<close>), from the configuration service and from QGIS; every result
  below holds for all of them.  \<open>QgsRectangle\<close> is the constructor applied to the list of
  coordinate strings, \<open>features_in_rect\<close> and \<open>features_by_expression\<close> give the
  features of a layer that a rectangle or an expression matches; each is \<open>None\<close> when
  QGIS raises.

  The module's own decoders \<^verbatim>\<open>input_to_extent\<close>, \<^verbatim>\<open>input_to_point\<close> and
  \<^verbatim>\<open>input_to_file\<close> rest on float parsing, on OGR and on the file system.  They are
  parameters here as well: the decoder calls them in three of its branches, and no
  result below is about what they compute.
\<close>

record env =
  urlparse :: "string \<Rightarrow> error + url"
  parse_qs :: "string \<Rightarrow> (string \<times> string list) list"
  types_map :: "string \<rightharpoonup> string"
  outputfile_as_reference :: bool
  QgsRectangle :: "string list \<Rightarrow> string list option"
  features_in_rect :: "string list \<Rightarrow> layer \<Rightarrow> int set option"
  features_by_expression :: "string \<Rightarrow> layer \<Rightarrow> int set option"
  input_to_extent :: "wps_value \<Rightarrow> error + native"
  input_to_point :: "wps_value \<Rightarrow> error + native"
  input_to_file :: "wps_value \<Rightarrow> param \<Rightarrow> processing_context \<Rightarrow> error + string"

section \<open>Output converters\<close>

definition OUTPUT_LAYER_TYPES :: "out_class list" where
  "OUTPUT_LAYER_TYPES = [QgsProcessingOutputVectorLayer, QgsProcessingOutputRasterLayer]"

definition parse_literal_output :: "outdef \<Rightarrow> out_kwargs \<Rightarrow> wps_output option" where
  "parse_literal_output od kw =
     (if o_type od = ''outputString'' then Some (LiteralOutput (kw\<lparr>ok_data_type := Some ''string''\<rparr>))
      else if o_type od = ''outputNumber'' then Some (LiteralOutput (kw\<lparr>ok_data_type := Some ''float''\<rparr>))
      else None)"

definition parse_layer_output :: "outdef \<Rightarrow> out_kwargs \<Rightarrow> wps_output option" where
  "parse_layer_output od kw =
     (if o_class od \<in> set OUTPUT_LAYER_TYPES then
        (if o_class od = QgsProcessingOutputVectorLayer then
           Some (ComplexOutput (kw\<lparr>ok_supported_formats :=
                   Some [Format (Some ''application/x-ogc-wms''), Format (Some ''application/x-ogc-wfs'')],
                 ok_as_reference := Some (PBool True)\<rparr>))
         else if o_class od = QgsProcessingOutputRasterLayer then
           Some (ComplexOutput (kw\<lparr>ok_supported_formats :=
                   Some [Format (Some ''application/x-ogc-wms''), Format (Some ''application/x-ogc-wcs'')],
                 ok_as_reference := Some (PBool True)\<rparr>))
         else
           Some (ComplexOutput (kw\<lparr>ok_supported_formats := Some [Format (Some ''application/x-ogc-wms'')],
                 ok_as_reference := Some (PBool True)\<rparr>)))
      else None)"

text \<open>
  \<^verbatim>\<open>parse_file_output\<close> reads the configured default first.  The HTML branch builds its
  output without an \<^verbatim>\<open>as_reference\<close> argument; the file branch passes it, after the
  paired input's \<^verbatim>\<open>wps:as_reference\<close> metadata had its say.
\<close>

definition parse_file_output ::
  "env \<Rightarrow> outdef \<Rightarrow> out_kwargs \<Rightarrow> algorithm option \<Rightarrow> log_record list \<Rightarrow> wps_output option \<times> log_record list"
where
  "parse_file_output e od kw alg lg =
     (let as_reference = PBool (outputfile_as_reference e) in
      if o_class od = QgsProcessingOutputHtml then
        (let mime = types_map e ''.html'' in
         (Some (ComplexOutput (kw\<lparr>ok_supported_formats := Some [Format mime]\<rparr>)), lg))
      else if o_class od = QgsProcessingOutputFile then
        (let (mime, as_reference) =
           (case alg of
              None \<Rightarrow> (None, as_reference)
            | Some a \<Rightarrow>
               (case parameterDefinition a (o_name od) of
                  None \<Rightarrow> (None, as_reference)
                | Some inputdef \<Rightarrow>
                   if p_class inputdef = QgsProcessingParameterFileDestination then
                     (types_map e (''.'' @ p_defaultFileExtension inputdef),
                      (case map_of (p_metadata inputdef) ''wps:as_reference'' of
                         None \<Rightarrow> as_reference
                       | Some v \<Rightarrow> v))
                   else (None, as_reference)));
             (mime, lg) =
               (case mime of
                  None \<Rightarrow> (''application/octet-stream'',
                            lg @ [LogWarning (Msg ''Cannot set file type for output %s'' [AStr (o_name od)])])
                | Some m \<Rightarrow> (m, lg))
         in (Some (ComplexOutput (kw\<lparr>ok_supported_formats := Some [Format (Some mime)],
                                     ok_as_reference := Some as_reference\<rparr>)), lg))
      else (None, lg))"

definition parse_output_definition ::
  "env \<Rightarrow> outdef \<Rightarrow> algorithm option \<Rightarrow> log_record list \<Rightarrow> (error + wps_output) \<times> log_record list"
where
  "parse_output_definition e od alg lg =
     (let kw = \<lparr>ok_identifier = o_name od, ok_title = o_description od,
                ok_abstract = o_description od, ok_data_type = None,
                ok_supported_formats = None, ok_as_reference = None\<rparr> in
      case parse_literal_output od kw of
        Some out \<Rightarrow> (Inr out, lg)
      | None \<Rightarrow>
         (case parse_layer_output od kw of
            Some out \<Rightarrow> (Inr out, lg)
          | None \<Rightarrow>
             (case parse_file_output e od kw alg lg of
                (Some out, lg') \<Rightarrow> (Inr out, lg')
              | (None, lg') \<Rightarrow> (Inl (ProcessingOutputTypeNotSupported (Msg ''%s'' [AStr (o_type od)])), lg'))))"

section \<open>Input converters\<close>

text \<open>
  Modelled from the spec: the \<open>optional\<close> flag of a native descriptor.  The code masks
  \<^verbatim>\<open>param.flags()\<close> with the framework's constant \<^verbatim>\<open>FlagOptional\<close>, which is bit 3.
\<close>

definition FlagOptional :: int where
  "FlagOptional = 8"

definition is_optional :: "param \<Rightarrow> bool" where
  "is_optional p = (p_flags p AND FlagOptional \<noteq> 0)"

text \<open>Python's \<^verbatim>\<open>xs[i]\<close>: a negative index counts from the end, anything else outside raises.\<close>

definition getitem :: "'a list \<Rightarrow> int \<Rightarrow> error + 'a" where
  "getitem xs i =
     (if 0 \<le> i \<and> i < int (length xs) then Inr (xs ! nat i)
      else if i < 0 \<and> - int (length xs) \<le> i then Inr (xs ! nat (int (length xs) + i))
      else Inl IndexError)"

text \<open>
  An object used as a list index: an \<^verbatim>\<open>int\<close> (and so a \<^verbatim>\<open>bool\<close>) is one, any other
  value is a \<^verbatim>\<open>TypeError\<close>.
\<close>

fun as_index :: "pyval \<Rightarrow> error + int" where
  "as_index (PInt i) = Inr i"
| "as_index (PBool b) = Inr (if b then 1 else 0)"
| "as_index _ = Inl TypeError"

definition option_at :: "string list \<Rightarrow> pyval \<Rightarrow> error + string" where
  "option_at opts v = (case as_index v of Inl x \<Rightarrow> Inl x | Inr i \<Rightarrow> getitem opts i)"

text \<open>The default of an enum: the native value is an index, or a list whose head is one.\<close>

definition enum_default :: "string list \<Rightarrow> pyval \<Rightarrow> kwargs \<Rightarrow> error + kwargs" where
  "enum_default opts default_value kw =
     (case default_value of
        PNone \<Rightarrow> Inr kw
      | PInt i \<Rightarrow> map_sum id (\<lambda>s. kw\<lparr>kw_default := PStr s\<rparr>) (option_at opts (PInt i))
      | PBool b \<Rightarrow> map_sum id (\<lambda>s. kw\<lparr>kw_default := PStr s\<rparr>) (option_at opts (PBool b))
      | PList vs \<Rightarrow>
         (case vs of
            [] \<Rightarrow> Inl IndexError
          | v # _ \<Rightarrow> map_sum id (\<lambda>s. kw\<lparr>kw_default := PStr s\<rparr>) (option_at opts v))
      | _ \<Rightarrow> Inl (InvalidParameterValue (Msg ''Unsupported default value: %s'' [AVal default_value])))"

definition field_type_name :: "field_type \<Rightarrow> error + string" where
  "field_type_name t =
     (case t of
        FieldAny \<Rightarrow> Inr ''Any''
      | FieldNumeric \<Rightarrow> Inr ''Numeric''
      | FieldString \<Rightarrow> Inr ''String''
      | FieldDateTime \<Rightarrow> Inr ''DateTime''
      | FieldOther _ \<Rightarrow> Inl KeyError)"

definition parse_literal_input :: "param \<Rightarrow> kwargs \<Rightarrow> error + wps_input option" where
  "parse_literal_input p kw =
     (let typ = p_type p in
      if typ = ''string'' then Inr (Some (LiteralInput (kw\<lparr>kw_data_type := Some ''string''\<rparr>)))
      else if typ = ''boolean'' then Inr (Some (LiteralInput (kw\<lparr>kw_data_type := Some ''boolean''\<rparr>)))
      else if typ = ''enum'' then
        (let options = p_options p;
             kw = kw\<lparr>kw_data_type := Some ''string'',
                     kw_allowed_values := Some (AllowedValues options),
                     kw_max_occurs := Some (if p_allowMultiple p then int (length options) else 1)\<rparr>
         in map_sum id (\<lambda>kw. Some (LiteralInput kw)) (enum_default options (p_defaultValue p) kw))
      else if typ = ''number'' then
        Inr (Some (LiteralInput (kw\<lparr>
          kw_data_type := Some (case p_numberType p of Double \<Rightarrow> ''float'' | Integer \<Rightarrow> ''integer''),
          kw_allowed_values := Some (AllowedRange (p_minimum p) (p_maximum p))\<rparr>)))
      else if typ = ''field'' then
        (case field_type_name (p_fieldType p) of
           Inl x \<Rightarrow> Inl x
         | Inr n \<Rightarrow> Inr (Some (LiteralInput (kw\<lparr>
             kw_data_type := Some ''string'',
             kw_metadata := kw_metadata kw @
               [Metadata ''processing:parentLayerParameterName'' (MStr (p_parentLayerParameterName p)),
                Metadata ''processing:dataType'' (MStr n)]\<rparr>))))
      else if typ = ''crs'' then Inr (Some (LiteralInput (kw\<lparr>kw_data_type := Some ''string''\<rparr>)))
      else if typ = ''band'' then Inr (Some (LiteralInput (kw\<lparr>kw_data_type := Some ''nonNegativeInteger''\<rparr>)))
      else Inr None)"

definition parse_file_input :: "env \<Rightarrow> param \<Rightarrow> kwargs \<Rightarrow> wps_input option" where
  "parse_file_input e p kw =
     (let typ = p_type p in
      if typ = ''file'' then
        (if p_behavior p = Folder then Some (LiteralInput (kw\<lparr>kw_data_type := Some ''string''\<rparr>))
         else
           (let ext = p_extension p;
                kw = (if ext \<noteq> [] then
                        (let kw = (case types_map e ext of
                                     Some mime \<Rightarrow> kw\<lparr>kw_supported_formats := Some [Format (Some mime)]\<rparr>
                                   | None \<Rightarrow> kw)
                         in kw\<lparr>kw_metadata := kw_metadata kw @ [Metadata ''processing:extension'' (MStr ext)]\<rparr>)
                      else kw)
            in Some (ComplexInput kw)))
      else if typ = ''fileDestination'' then
        (let extension = ''.'' @ p_defaultFileExtension p in
         Some (LiteralInput (kw\<lparr>
           kw_data_type := Some ''string'',
           kw_metadata := kw_metadata kw @
             [Metadata ''processing:format''
                (MStr (case types_map e extension of Some m \<Rightarrow> m | None \<Rightarrow> []))]\<rparr>)))
      else if typ = ''folderDestination'' then Some (LiteralInput (kw\<lparr>kw_data_type := Some ''string''\<rparr>))
      else None)"

definition parse_metadata :: "param \<Rightarrow> kwargs \<Rightarrow> kwargs" where
  "parse_metadata p kw =
     kw\<lparr>kw_metadata := kw_metadata kw @
          map (\<lambda>(k, v). Metadata (''processing:meta:'' @ k) (MStrOf v)) (p_metadata p)\<rparr>"

definition INPUT_VECTOR_LAYER_TYPES :: "param_class list" where
  "INPUT_VECTOR_LAYER_TYPES = [QgsProcessingParameterVectorLayer, QgsProcessingParameterFeatureSource]"

definition INPUT_RASTER_LAYER_TYPES :: "param_class list" where
  "INPUT_RASTER_LAYER_TYPES = [QgsProcessingParameterRasterLayer]"

definition INPUT_OTHER_LAYER_TYPES :: "param_class list" where
  "INPUT_OTHER_LAYER_TYPES = [QgsProcessingParameterMapLayer, QgsProcessingParameterMultipleLayers]"

definition INPUT_LAYER_TYPES :: "param_class list" where
  "INPUT_LAYER_TYPES = INPUT_VECTOR_LAYER_TYPES @ INPUT_RASTER_LAYER_TYPES @ INPUT_OTHER_LAYER_TYPES"

definition SourceTypes :: "source_type \<Rightarrow> error + string" where
  "SourceTypes t =
     (case t of
        TypeMapLayer \<Rightarrow> Inr ''TypeMapLayer''
      | TypeVectorAnyGeometry \<Rightarrow> Inr ''TypeVectorAnyGeometry''
      | TypeVectorPoint \<Rightarrow> Inr ''TypeVectorPoint''
      | TypeVectorLine \<Rightarrow> Inr ''TypeVectorLine''
      | TypeVectorPolygon \<Rightarrow> Inr ''TypeVectorPolygon''
      | TypeRaster \<Rightarrow> Inr ''TypeRaster''
      | TypeFile \<Rightarrow> Inr ''TypeFile''
      | TypeVector \<Rightarrow> Inr ''TypeVector''
      | TypeOther _ \<Rightarrow> Inl KeyError)"

text \<open>The names of a list of source types; the first one that is no key of the table raises.\<close>

fun source_type_names :: "source_type list \<Rightarrow> error + string list" where
  "source_type_names [] = Inr []"
| "source_type_names (t # ts) =
     (case SourceTypes t of
        Inl x \<Rightarrow> Inl x
      | Inr n \<Rightarrow> (case source_type_names ts of Inl x \<Rightarrow> Inl x | Inr ns \<Rightarrow> Inr (n # ns)))"

text \<open>\<^verbatim>\<open>sep.join(xs)\<close>.\<close>

fun join :: "string \<Rightarrow> string list \<Rightarrow> string" where
  "join sep [] = []"
| "join sep [x] = x"
| "join sep (x # y # ys) = x @ sep @ join sep (y # ys)"

definition is_allowed :: "source_type list \<Rightarrow> layer \<Rightarrow> bool" where
  "is_allowed datatypes lyr =
     (if l_type lyr = VectorLayer then
        (let geomtype = l_geometryType lyr in
         (geomtype = PointGeometry \<and> TypeVectorPoint \<in> set datatypes)
         \<or> (geomtype = LineGeometry \<and> TypeVectorLine \<in> set datatypes)
         \<or> (geomtype = PolygonGeometry \<and> TypeVectorPolygon \<in> set datatypes)
         \<or> TypeVectorAnyGeometry \<in> set datatypes
         \<or> TypeVector \<in> set datatypes
         \<or> TypeMapLayer \<in> set datatypes)
      else if l_type lyr = RasterLayer then
        TypeRaster \<in> set datatypes \<or> TypeMapLayer \<in> set datatypes
      else False)"

definition parse_allowed_layers :: "param \<Rightarrow> kwargs \<Rightarrow> map_context option \<Rightarrow> error + kwargs" where
  "parse_allowed_layers p kw context =
     (let typ = p_type p;
          kw = (if typ = ''multilayer'' then
                  (let num_inputs = p_minimumNumberInputs p in
                   kw\<lparr>kw_min_occurs := Some (if num_inputs \<ge> 1 then num_inputs else 0),
                      kw_max_occurs := Some 20\<rparr>)
                else kw);
          datatypes = (case p_limitedDataTypes p of Some ds \<Rightarrow> ds | None \<Rightarrow> []);
          datatypes =
            (if datatypes = [] then
               (if p_class p \<in> set INPUT_VECTOR_LAYER_TYPES then [TypeVector]
                else if p_class p \<in> set INPUT_RASTER_LAYER_TYPES then [TypeRaster]
                else if p_class p = QgsProcessingParameterMultipleLayers then [p_layerType p]
                else [TypeMapLayer])
             else datatypes)
      in case source_type_names datatypes of
           Inl x \<Rightarrow> Inl x
         | Inr names \<Rightarrow>
            (let kw = kw\<lparr>kw_metadata := kw_metadata kw @
                           [Metadata ''processing:dataTypes'' (MStr (join '','' names))]\<rparr>
             in case context of
                  None \<Rightarrow> Inr kw
                | Some c \<Rightarrow>
                   (let allowed_values = map l_name (filter (is_allowed datatypes) (project_layers c));
                        kw = kw\<lparr>kw_allowed_values := Some (AllowedValues allowed_values)\<rparr>
                    in Inr (if typ = ''multilayer''
                            then kw\<lparr>kw_max_occurs := Some (int (length allowed_values))\<rparr>
                            else kw))))"

text \<open>
  For a vector sink the metadata records \<^verbatim>\<open>str(param.dataType())\<close>, the string of the
  type's number in the framework; it is kept as the type itself.
\<close>

definition parse_layer_input :: "param \<Rightarrow> kwargs \<Rightarrow> map_context option \<Rightarrow> error + wps_input option" where
  "parse_layer_input p kw context =
     (if p_class p \<in> set INPUT_LAYER_TYPES then
        map_sum id (\<lambda>kw. Some (LiteralInput kw))
          (parse_allowed_layers p (kw\<lparr>kw_data_type := Some ''string''\<rparr>) context)
      else if p_class p = QgsProcessingParameterRasterDestination then
        Inr (Some (LiteralInput (kw\<lparr>
          kw_data_type := Some ''string'',
          kw_metadata := kw_metadata kw @
            [Metadata ''processing:extension'' (MStr (p_defaultFileExtension p))]\<rparr>)))
      else if p_class p \<in> {QgsProcessingParameterVectorDestination, QgsProcessingParameterFeatureSink} then
        Inr (Some (LiteralInput (kw\<lparr>
          kw_data_type := Some ''string'',
          kw_metadata := kw_metadata kw @
            [Metadata ''processing:dataType'' (MStrOfSourceType (p_sinkDataType p)),
             Metadata ''processing:extension'' (MStr (p_defaultFileExtension p))]\<rparr>)))
      else Inr None)"

definition parse_extent_input :: "param \<Rightarrow> kwargs \<Rightarrow> wps_input option" where
  "parse_extent_input p kw =
     (if p_type p = ''extent'' then Some (BoundingBoxInput (kw\<lparr>kw_crss := Some [''EPSG:4326'']\<rparr>))
      else None)"

definition parse_point_input :: "param \<Rightarrow> kwargs \<Rightarrow> wps_input option" where
  "parse_point_input p kw =
     (if p_class p = QgsProcessingParameterPoint then
        Some (ComplexInput (kw\<lparr>kw_supported_formats := Some [FORMATS_GEOJSON, FORMATS_GML]\<rparr>))
      else None)"

text \<open>
  The matchers are chained with \<^verbatim>\<open>or\<close>: a protocol input is a truthy object, so the
  first matcher that returns one ends the chain.  The list under \<^verbatim>\<open>kwargs['metadata']\<close>
  is the list the constructor received, so the free-form metadata appended after the
  dispatch is metadata of the input returned.
\<close>

fun with_kwargs :: "(kwargs \<Rightarrow> kwargs) \<Rightarrow> wps_input \<Rightarrow> wps_input" where
  "with_kwargs f (LiteralInput kw) = LiteralInput (f kw)"
| "with_kwargs f (ComplexInput kw) = ComplexInput (f kw)"
| "with_kwargs f (BoundingBoxInput kw) = BoundingBoxInput (f kw)"

definition replace_char :: "char \<Rightarrow> char \<Rightarrow> string \<Rightarrow> string" where
  "replace_char a b s = map (\<lambda>c. if c = a then b else c) s"

definition unwrap_default :: "pyval \<Rightarrow> pyval" where
  "unwrap_default v = (case v of QVariant isNull w \<Rightarrow> (if isNull then PNone else w) | _ \<Rightarrow> v)"

definition parse_input_definition ::
  "env \<Rightarrow> param \<Rightarrow> algorithm option \<Rightarrow> map_context option \<Rightarrow> error + wps_input"
where
  "parse_input_definition e p alg context =
     (let kw = \<lparr>kw_identifier = p_name p,
                kw_title = replace_char (CHR ''_'') (CHR '' '') (p_name p),
                kw_abstract = p_description p,
                kw_metadata = [Metadata ''processing:type'' (MStr (p_type p))],
                kw_default = unwrap_default (p_defaultValue p),
                kw_min_occurs = (if is_optional p then Some 0 else None),
                kw_max_occurs = None, kw_data_type = None, kw_allowed_values = None,
                kw_supported_formats = None, kw_crss = None\<rparr>;
          unsupported = Inl (ProcessingInputTypeNotSupported
                               (Msg (''%s:'' @ quoted_s) [AClass (p_class p), AStr (p_type p)]))
      in map_sum id (with_kwargs (parse_metadata p))
          (case parse_literal_input p kw of
             Inl x \<Rightarrow> Inl x
           | Inr (Some inp) \<Rightarrow> Inr inp
           | Inr None \<Rightarrow>
              (case parse_layer_input p kw context of
                 Inl x \<Rightarrow> Inl x
               | Inr (Some inp) \<Rightarrow> Inr inp
               | Inr None \<Rightarrow>
                  (case parse_extent_input p kw of
                     Some inp \<Rightarrow> Inr inp
                   | None \<Rightarrow>
                      (case parse_file_input e p kw of
                         Some inp \<Rightarrow> Inr inp
                       | None \<Rightarrow>
                          (case parse_point_input p kw of
                             Some inp \<Rightarrow> Inr inp
                           | None \<Rightarrow> unsupported))))))"

text \<open>
  Modelled from the spec: the constructors of the protocol inputs are not part of the
  module; an input built without \<^verbatim>\<open>min_occurs\<close> has the default cardinality 1.
\<close>

fun input_kwargs :: "wps_input \<Rightarrow> kwargs" where
  "input_kwargs (LiteralInput kw) = kw"
| "input_kwargs (ComplexInput kw) = kw"
| "input_kwargs (BoundingBoxInput kw) = kw"

definition min_occurs :: "wps_input \<Rightarrow> int" where
  "min_occurs inp = (case kw_min_occurs (input_kwargs inp) of None \<Rightarrow> 1 | Some n \<Rightarrow> n)"

section \<open>Path functions of the standard library\<close>

text \<open>
  \<^verbatim>\<open>os.path.normpath\<close> and \<^verbatim>\<open>os.path.basename\<close> as \<^verbatim>\<open>posixpath\<close> defines them
  (the server runs on POSIX), and \<^verbatim>\<open>str.split\<close> with a one-character separator.
\<close>

fun split_on :: "char \<Rightarrow> string \<Rightarrow> string list" where
  "split_on c [] = [[]]"
| "split_on c (x # xs) =
     (if x = c then [] # split_on c xs
      else (case split_on c xs of [] \<Rightarrow> [[x]] | w # ws \<Rightarrow> (x # w) # ws))"

text \<open>One round of the loop over the components; \<open>new_comps\<close> grows at its end.\<close>

definition normpath_step :: "nat \<Rightarrow> string \<Rightarrow> string list \<Rightarrow> string list" where
  "normpath_step initial_slashes c new_comps =
     (if c = [] \<or> c = ''.'' then new_comps
      else if c \<noteq> ''..'' \<or> (initial_slashes = 0 \<and> new_comps = [])
              \<or> (new_comps \<noteq> [] \<and> last new_comps = ''..'')
      then new_comps @ [c]
      else if new_comps \<noteq> [] then butlast new_comps
      else new_comps)"

definition normpath :: "string \<Rightarrow> string" where
  "normpath p =
     (if p = [] then ''.''
      else
        (let initial_slashes =
               (if take 1 p = ''/'' then (if take 2 p = ''//'' \<and> take 3 p \<noteq> ''///'' then 2 else 1)
                else (0::nat));
             comps = fold (normpath_step initial_slashes) (split_on (CHR ''/'') p) [];
             q = replicate initial_slashes (CHR ''/'') @ join ''/'' comps
         in if q = [] then ''.'' else q))"

definition basename :: "string \<Rightarrow> string" where
  "basename p = rev (takeWhile (\<lambda>c. c \<noteq> CHR ''/'') (rev p))"

section \<open>Layer specifications\<close>

datatype select_behavior = SetSelection | AddToSelection | IntersectSelection | RemoveFromSelection

text \<open>
  Modelled from the spec: selecting on a live vector layer (\<^verbatim>\<open>QgsVectorLayer\<close>, not part
  of the module).  The matched features replace the current selection, are added to it,
  are intersected with it or are removed from it, as the behaviour says.
\<close>

definition selectByIds :: "int set \<Rightarrow> select_behavior \<Rightarrow> layer \<Rightarrow> layer" where
  "selectByIds ids behavior lyr =
     lyr\<lparr>l_selectedFeatureIds :=
           (case behavior of
              SetSelection \<Rightarrow> ids
            | AddToSelection \<Rightarrow> l_selectedFeatureIds lyr \<union> ids
            | IntersectSelection \<Rightarrow> l_selectedFeatureIds lyr \<inter> ids
            | RemoveFromSelection \<Rightarrow> l_selectedFeatureIds lyr - ids)\<rparr>"

definition selectByRect :: "env \<Rightarrow> string list \<Rightarrow> select_behavior \<Rightarrow> layer \<Rightarrow> layer option" where
  "selectByRect e rect behavior lyr =
     map_option (\<lambda>ids. selectByIds ids behavior lyr) (features_in_rect e rect lyr)"

definition selectByExpression :: "env \<Rightarrow> string \<Rightarrow> select_behavior \<Rightarrow> layer \<Rightarrow> layer option" where
  "selectByExpression e ftreq behavior lyr =
     map_option (\<lambda>ids. selectByIds ids behavior lyr) (features_by_expression e ftreq lyr)"

text \<open>
  The body of the \<^verbatim>\<open>try\<close> block: the layer as the block leaves it, and whether it ran
  to its end.  A step that raises leaves the layer as the steps before it made it.
\<close>

definition apply_selection :: "env \<Rightarrow> string list \<Rightarrow> string list \<Rightarrow> layer \<Rightarrow> layer \<times> bool" where
  "apply_selection e feat_rects feat_requests lyr =
     (let behavior = SetSelection;
          after_rect =
            (if feat_rects \<noteq> [] then
               (case QgsRectangle e (take 4 (split_on (CHR '','') (last feat_rects))) of
                  None \<Rightarrow> None
                | Some rect \<Rightarrow>
                   map_option (\<lambda>l. (l, IntersectSelection)) (selectByRect e rect behavior lyr))
             else Some (lyr, behavior))
      in case after_rect of
           None \<Rightarrow> (lyr, False)
         | Some (lyr1, behavior) \<Rightarrow>
            (if feat_requests \<noteq> [] then
               (case selectByExpression e (last feat_requests) behavior lyr1 of
                  None \<Rightarrow> (lyr1, False)
                | Some lyr2 \<Rightarrow> (lyr2, True))
             else (lyr1, True)))"

definition dict_get :: "(string \<times> 'a list) list \<Rightarrow> string \<Rightarrow> 'a list" where
  "dict_get d k = (case map_of d k of Some v \<Rightarrow> v | None \<Rightarrow> [])"

definition parse_layer_spec ::
  "env \<Rightarrow> string \<Rightarrow> processing_context \<Rightarrow> bool \<Rightarrow> log_record list
     \<Rightarrow> (error + string \<times> bool) \<times> processing_context \<times> log_record list"
where
  "parse_layer_spec e layerspec context allow_selection lg =
     (case urlparse e layerspec of
        Inl x \<Rightarrow> (Inl x, context, lg)
      | Inr u \<Rightarrow>
         (case (if scheme u = ''file'' then resolve_path context (path u)
                else if scheme u \<noteq> [] \<and> scheme u \<noteq> ''layer''
                then Inl (InvalidParameterValue (Msg ''Bad scheme: %s'' [AStr layerspec]))
                else Inr (path u)) of
            Inl x \<Rightarrow> (Inl x, context, lg)
          | Inr p \<Rightarrow>
             (if \<not> allow_selection then (Inr (p, False), context, lg)
              else
                (let qs = parse_qs e (query u);
                     feat_requests = dict_get qs ''select'';
                     feat_rects = dict_get qs ''rect''
                 in if feat_rects \<noteq> [] \<or> feat_requests \<noteq> [] then
                      (case getMapLayer context p of
                         None \<Rightarrow>
                           (Inl (InvalidParameterValue
                                   (Msg (''No layer '' @ quoted_s @ '' found'') [AStr (path u)])),
                            context,
                            lg @ [LogError (Msg ''No layer path for url %s'' [AUrl u])])
                       | Some lyr \<Rightarrow>
                           (if l_type lyr \<noteq> VectorLayer then
                              (Inr (p, True), context,
                               lg @ [LogWarning (Msg ''Can apply selection only to vector layer'' [])])
                            else
                              (let lg = lg @ [LogDebug (Msg ''Applying features selection: %s'' [AQuery qs])];
                                   (lyr', done) = apply_selection e feat_rects feat_requests lyr;
                                   context = context\<lparr>getMapLayer := (getMapLayer context)(p \<mapsto> lyr')\<rparr>
                               in if done then (Inr (p, True), context, lg)
                                  else (Inl (NoApplicableCode (Msg ''Feature selection failed'' [])),
                                        context,
                                        lg @ [LogError (Msg ''%s'' [ATraceback])]))))
                    else (Inr (p, False), context, lg)))))"

section \<open>Decoding submitted values\<close>

definition DESTINATION_LAYER_TYPES :: "param_class list" where
  "DESTINATION_LAYER_TYPES =
     [QgsProcessingParameterFeatureSink, QgsProcessingParameterVectorDestination,
      QgsProcessingParameterRasterDestination]"

text \<open>\<^verbatim>\<open>inp[0]\<close> on the list of submitted values.\<close>

definition first_input :: "wps_value list \<Rightarrow> error + wps_value" where
  "first_input inp = (case inp of [] \<Rightarrow> Inl IndexError | v # _ \<Rightarrow> Inr v)"

text \<open>\<^verbatim>\<open>list.index\<close>: the position of the first element equal to the value.\<close>

fun index_of :: "'a \<Rightarrow> 'a list \<Rightarrow> nat option" where
  "index_of x [] = None"
| "index_of x (y # ys) = (if y = x then Some 0 else map_option Suc (index_of x ys))"

text \<open>The options are strings, so a datum that is no string equals none of them.\<close>

definition options_index :: "string list \<Rightarrow> pyval \<Rightarrow> error + int" where
  "options_index opts d =
     (case d of
        PStr s \<Rightarrow> (case index_of s opts of None \<Rightarrow> Inl ValueError | Some i \<Rightarrow> Inr (int i))
      | _ \<Rightarrow> Inl ValueError)"

fun options_indices :: "string list \<Rightarrow> wps_value list \<Rightarrow> error + int list" where
  "options_indices opts [] = Inr []"
| "options_indices opts (d # ds) =
     (case options_index opts (data d) of
        Inl x \<Rightarrow> Inl x
      | Inr i \<Rightarrow> (case options_indices opts ds of Inl x \<Rightarrow> Inl x | Inr js \<Rightarrow> Inr (i # js)))"

text \<open>
  A layer specification is a string; the parser of the standard library rejects a datum
  of another type.
\<close>

definition parse_layer_spec_data ::
  "env \<Rightarrow> pyval \<Rightarrow> processing_context \<Rightarrow> bool \<Rightarrow> log_record list
     \<Rightarrow> (error + string \<times> bool) \<times> processing_context \<times> log_record list"
where
  "parse_layer_spec_data e d context allow_selection lg =
     (case d of
        PStr s \<Rightarrow> parse_layer_spec e s context allow_selection lg
      | _ \<Rightarrow> (Inl TypeError, context, lg))"

text \<open>The comprehension over several submitted layers, left to right.\<close>

fun parse_layer_specs ::
  "env \<Rightarrow> wps_value list \<Rightarrow> processing_context \<Rightarrow> log_record list
     \<Rightarrow> (error + string list) \<times> processing_context \<times> log_record list"
where
  "parse_layer_specs e [] context lg = (Inr [], context, lg)"
| "parse_layer_specs e (i # inp) context lg =
     (case parse_layer_spec_data e (data i) context False lg of
        (Inl x, context, lg) \<Rightarrow> (Inl x, context, lg)
      | (Inr (p, _), context, lg) \<Rightarrow>
         (case parse_layer_specs e inp context lg of
            (Inl x, context, lg) \<Rightarrow> (Inl x, context, lg)
          | (Inr ps, context, lg) \<Rightarrow> (Inr (p # ps), context, lg)))"

text \<open>
  The decoder changes three things besides returning: the descriptor of a destination
  sink, the selection of a live layer, and the log.  The algorithm, the context and the
  log are passed in and returned, also when the decoder raises; a changed descriptor is
  stored back under the identifier it was looked up with.  A lookup that finds no
  descriptor gives \<^verbatim>\<open>None\<close>, and the call of its \<^verbatim>\<open>type()\<close> raises.
\<close>

type_synonym decoded =
  "(error + string \<times> native) \<times> algorithm \<times> processing_context \<times> log_record list"

definition input_to_processing ::
  "env \<Rightarrow> string \<Rightarrow> wps_value list \<Rightarrow> algorithm \<Rightarrow> processing_context \<Rightarrow> log_record list \<Rightarrow> decoded"
where
  "input_to_processing e identifier inp alg context lg =
     (case parameterDefinition alg identifier of
        None \<Rightarrow> (Inl AttributeError, alg, context, lg)
      | Some param \<Rightarrow>
         (let typ = p_type param in
          if p_class param \<in> set DESTINATION_LAYER_TYPES then
            (let param = param\<lparr>p_supportsNonFileBasedOutput := False\<rparr>;
                 alg = alg\<lparr>parameterDefinition := (parameterDefinition alg)(identifier \<mapsto> param)\<rparr>;
                 sink = ''./'' @ p_name param @ ''.'' @ p_defaultFileExtension param
             in case first_input inp of
                  Inl x \<Rightarrow> (Inl x, alg, context, lg)
                | Inr v \<Rightarrow>
                   (Inr (p_name param,
                         QgsProcessingOutputLayerDefinition sink (destination_project context) (data v)),
                    alg, context, lg))
          else if p_class param = QgsProcessingParameterFeatureSource then
            (case first_input inp of
               Inl x \<Rightarrow> (Inl x, alg, context, lg)
             | Inr v \<Rightarrow>
                (case parse_layer_spec_data e (data v) context True lg of
                   (Inl x, context, lg) \<Rightarrow> (Inl x, alg, context, lg)
                 | (Inr (value, has_selection), context, lg) \<Rightarrow>
                    (Inr (p_name param, QgsProcessingFeatureSourceDefinition value has_selection),
                     alg, context, lg)))
          else if p_class param \<in> set INPUT_LAYER_TYPES then
            (if length inp > 1 then
               (case parse_layer_specs e inp context lg of
                  (Inl x, context, lg) \<Rightarrow> (Inl x, alg, context, lg)
                | (Inr ps, context, lg) \<Rightarrow>
                   (Inr (p_name param, PyValue (PList (map PStr ps))), alg, context, lg))
             else
               (case first_input inp of
                  Inl x \<Rightarrow> (Inl x, alg, context, lg)
                | Inr v \<Rightarrow>
                   (case parse_layer_spec_data e (data v) context False lg of
                      (Inl x, context, lg) \<Rightarrow> (Inl x, alg, context, lg)
                    | (Inr (value, _), context, lg) \<Rightarrow>
                       (Inr (p_name param, PyValue (PStr value)), alg, context, lg))))
          else if p_class param = QgsProcessingParameterPoint then
            (case first_input inp of
               Inl x \<Rightarrow> (Inl x, alg, context, lg)
             | Inr v \<Rightarrow> (map_sum id (Pair (p_name param)) (input_to_point e v), alg, context, lg))
          else if typ = ''enum'' then
            (if p_allowMultiple param \<and> length inp > 1 then
               (let opts = p_options param in
                (map_sum id (\<lambda>js. (p_name param, PyValue (PList (map PInt js))))
                   (options_indices opts inp),
                 alg, context, lg))
             else
               (case first_input inp of
                  Inl x \<Rightarrow> (Inl x, alg, context, lg)
                | Inr v \<Rightarrow>
                   (map_sum id (\<lambda>j. (p_name param, PyValue (PInt j)))
                      (options_index (p_options param) (data v)),
                    alg, context, lg)))
          else if typ = ''extent'' then
            (case first_input inp of
               Inl x \<Rightarrow> (Inl x, alg, context, lg)
             | Inr v \<Rightarrow> (map_sum id (Pair (p_name param)) (input_to_extent e v), alg, context, lg))
          else if typ = ''crs'' then
            (case first_input inp of
               Inl x \<Rightarrow> (Inl x, alg, context, lg)
             | Inr v \<Rightarrow> (Inr (p_name param, PyValue (data v)), alg, context, lg))
          else if typ \<in> {''fileDestination'', ''folderDestination''} then
            (case first_input inp of
               Inl x \<Rightarrow> (Inl x, alg, context, lg)
             | Inr v \<Rightarrow>
                (case data v of
                   PStr s \<Rightarrow>
                     (let value = basename (normpath s);
                          lg = (if value \<noteq> s then
                                  lg @ [LogWarning
                                    (Msg (''Value for file or folder destination '' @ quoted_s
                                          @ '' has been truncated from '' @ quoted_s
                                          @ '' to '' @ quoted_s)
                                       [AStr identifier, AStr s, AStr value])]
                                else lg)
                      in (Inr (p_name param, PyValue (PStr value)), alg, context, lg))
                 | _ \<Rightarrow> (Inl TypeError, alg, context, lg)))
          else if typ = ''file'' then
            (case first_input inp of
               Inl x \<Rightarrow> (Inl x, alg, context, lg)
             | Inr v \<Rightarrow>
                (map_sum id (\<lambda>f. (p_name param, PyValue (PStr f))) (input_to_file e v param context),
                 alg, context, lg))
          else
            (case inp of
               v # _ \<Rightarrow> (Inr (p_name param, PyValue (data v)), alg, context, lg)
             | [] \<Rightarrow>
                (let lg = (if \<not> is_optional param then
                             lg @ [LogWarning (Msg ''Required input %s has no value'' [AStr identifier])]
                           else lg)
                 in (Inr (p_name param, PyValue PNone), alg, context, lg)))))"

section \<open>An instance of the collaborators\<close>

text \<open>
  The results below hold for every \<open>env\<close>.  To run the module on concrete layer
  specifications an instance is needed; this one follows \<^verbatim>\<open>urllib.parse\<close> of CPython 3.11
  on specifications of printable ASCII characters without a bracketed host:
  \<^verbatim>\<open>urlsplit\<close> strips leading blanks and control characters, drops tabs and line breaks,
  takes a scheme off before the first colon, an authority off after \<^verbatim>\<open>//\<close>, then the
  fragment and the query; \<^verbatim>\<open>urlparse\<close> takes the parameters off the last path segment.
\<close>

definition ascii_letters :: string where
  "ascii_letters = ''abcdefghijklmnopqrstuvwxyzABCDEFGHIJKLMNOPQRSTUVWXYZ''"

definition scheme_chars :: string where
  "scheme_chars = ascii_letters @ ''0123456789+-.''"

definition lower :: "string \<Rightarrow> string" where
  "lower s =
     map (\<lambda>c. case map_of (zip ''ABCDEFGHIJKLMNOPQRSTUVWXYZ'' ''abcdefghijklmnopqrstuvwxyz'') c of
                 Some l \<Rightarrow> l | None \<Rightarrow> c) s"

definition uses_params :: "string list" where
  "uses_params = ['''', ''ftp'', ''hdl'', ''prospero'', ''http'', ''imap'', ''https'', ''shttp'',
                  ''rtsp'', ''rtsps'', ''rtspu'', ''sip'', ''sips'', ''mms'', ''sftp'', ''tel'']"

text \<open>\<^verbatim>\<open>s.partition(c)\<close> without the separator: the part before the first \<open>c\<close> and the part after it.\<close>

definition partition_at :: "char \<Rightarrow> string \<Rightarrow> string \<times> string" where
  "partition_at c s = (takeWhile (\<lambda>x. x \<noteq> c) s, drop 1 (dropWhile (\<lambda>x. x \<noteq> c) s))"

definition split_scheme :: "string \<Rightarrow> string \<times> string" where
  "split_scheme u =
     (let pre = takeWhile (\<lambda>x. x \<noteq> CHR '':'') u in
      if CHR '':'' \<in> set u \<and> pre \<noteq> [] \<and> hd pre \<in> set ascii_letters
         \<and> list_all (\<lambda>c. c \<in> set scheme_chars) pre
      then (lower pre, drop (Suc (length pre)) u)
      else ([], u))"

definition split_netloc :: "string \<Rightarrow> string \<times> string" where
  "split_netloc u =
     (if take 2 u = ''//'' then
        (takeWhile (\<lambda>x. x \<notin> set ''/?#'') (drop 2 u), dropWhile (\<lambda>x. x \<notin> set ''/?#'') (drop 2 u))
      else ([], u))"

definition split_params :: "string \<Rightarrow> string \<times> string" where
  "split_params u =
     (let seg = basename u; dir = take (length u - length seg) u in
      if CHR '';'' \<in> set seg then (dir @ fst (partition_at (CHR '';'') seg), snd (partition_at (CHR '';'') seg))
      else (u, []))"

definition py_urlparse :: "string \<Rightarrow> error + url" where
  "py_urlparse s =
     (let u = dropWhile (\<lambda>c. (of_char c :: nat) \<le> 32) s;
          u = filter (\<lambda>c. c \<notin> {CHR 0x09, CHR 0x0A, CHR 0x0D}) u;
          (sch, u) = split_scheme u;
          (net, u) = split_netloc u
      in if (CHR ''['' \<in> set net) \<noteq> (CHR '']'' \<in> set net) then Inl ValueError
         else
           (let (u, frag) = partition_at (CHR ''#'') u;
                (u, q) = partition_at (CHR ''?'') u;
                (u, par) = (if sch \<in> set uses_params \<and> CHR '';'' \<in> set u then split_params u else (u, []))
            in Inr \<lparr>scheme = sch, netloc = net, path = u, params = par, query = q, fragment = frag\<rparr>))"

text \<open>
  \<^verbatim>\<open>parse_qs\<close>: the fields between ampersands; a field without a value is dropped; name
  and value have \<^verbatim>\<open>+\<close> turned into a blank and their percent escapes decoded.  Strings
  are byte sequences in UTF-8 here; the replacement of an ill-formed sequence is left out.
\<close>

definition hex_digit :: "char \<rightharpoonup> nat" where
  "hex_digit = map_of (zip ''0123456789abcdefABCDEF'' ([0 ..< 16] @ [10 ..< 16]))"

fun unquote :: "string \<Rightarrow> string" where
  "unquote (c # a # b # s) =
     (if c = CHR ''%'' then
        (case (hex_digit a, hex_digit b) of
           (Some h, Some l) \<Rightarrow> char_of (16 * h + l) # unquote s
         | _ \<Rightarrow> c # unquote (a # b # s))
      else c # unquote (a # b # s))"
| "unquote s = s"

definition unquote_plus :: "string \<Rightarrow> string" where
  "unquote_plus s = unquote (map (\<lambda>c. if c = CHR ''+'' then CHR '' '' else c) s)"

definition parse_qsl :: "string \<Rightarrow> (string \<times> string) list" where
  "parse_qsl qs =
     (if qs = [] then []
      else concat (map (\<lambda>name_value.
             (let (name, v) = partition_at (CHR ''='') name_value in
              if name_value \<noteq> [] \<and> v \<noteq> [] then [(unquote_plus name, unquote_plus v)] else []))
           (split_on (CHR ''&'') qs)))"

fun dict_append :: "(string \<times> string list) list \<Rightarrow> string \<times> string \<Rightarrow> (string \<times> string list) list" where
  "dict_append [] (k, v) = [(k, [v])]"
| "dict_append ((k', vs) # d) (k, v) =
     (if k' = k then (k', vs @ [v]) # d else (k', vs) # dict_append d (k, v))"

definition py_parse_qs :: "string \<Rightarrow> (string \<times> string list) list" where
  "py_parse_qs qs = foldl dict_append [] (parse_qsl qs)"

text \<open>
  The rest of the instance: a MIME table with the one entry used here, a rectangle that
  needs four coordinates, feature tables for a rectangle and an expression, and decoders
  that are not the subject of any result.
\<close>

definition demo_env :: env where
  "demo_env =
     \<lparr>urlparse = py_urlparse,
      parse_qs = py_parse_qs,
      types_map = [''.html'' \<mapsto> ''text/html''],
      outputfile_as_reference = True,
      QgsRectangle = (\<lambda>xs. if length xs = 4 then Some xs else None),
      features_in_rect = (\<lambda>rect lyr. if rect = [''0'', ''0'', ''10'', ''10''] then Some {1, 2, 3} else Some {}),
      features_by_expression = (\<lambda>ftreq lyr. if ftreq = ''pop > 100'' then Some {2, 3, 4} else None),
      input_to_extent = (\<lambda>v. Inl ValueError),
      input_to_point = (\<lambda>v. Inl (NoApplicableCode (Msg ''Unsupported data format: %s'' [AStr (mime_type v)]))),
      input_to_file = (\<lambda>v p c. Inr (p_name p @ p_extension p))\<rparr>"

definition demo_layer :: layer where
  "demo_layer = \<lparr>l_name = ''roads'', l_type = VectorLayer, l_geometryType = LineGeometry,
                  l_selectedFeatureIds = {7}\<rparr>"

definition demo_context :: processing_context where
  "demo_context =
     \<lparr>resolve_path = (\<lambda>p. Inr (''/srv/data'' @ p)),
      getMapLayer = [''roads'' \<mapsto> demo_layer, ''dem'' \<mapsto> demo_layer\<lparr>l_name := ''dem'', l_type := RasterLayer\<rparr>],
      destination_project = QgsProject ''destination'',
      workdir = ''/srv/work''\<rparr>"

definition demo_param :: param where
  "demo_param =
     \<lparr>p_class = QgsProcessingParameterDefinition, p_type = ''enum'', p_name = ''METHOD'',
      p_description = ''Method'', p_flags = 0, p_defaultValue = PInt 1, p_metadata = [],
      p_options = [''a'', ''a''], p_allowMultiple = False, p_numberType = Integer,
      p_minimum = PNone, p_maximum = PNone, p_fieldType = FieldAny,
      p_parentLayerParameterName = [], p_sinkDataType = TypeVectorAnyGeometry, p_behavior = File,
      p_extension = [], p_defaultFileExtension = ''gpkg'', p_minimumNumberInputs = 0,
      p_layerType = TypeMapLayer, p_limitedDataTypes = None, p_supportsNonFileBasedOutput = True\<rparr>"

definition demo_value :: "string \<Rightarrow> wps_value" where
  "demo_value s = \<lparr>data = PStr s, crs = PNone, mime_type = []\<rparr>"

definition demo_alg :: "param \<Rightarrow> algorithm" where
  "demo_alg p = \<lparr>parameterDefinition = [p_name p \<mapsto> p]\<rparr>"

section \<open>The output translator\<close>

text \<open>
  Vector and raster layer outputs: the layer matcher answers with the reference
  formats of the layer kind, and always as a reference.
\<close>

lemma layer_output_translation:
  "o_type od \<noteq> ''outputString'' \<Longrightarrow> o_type od \<noteq> ''outputNumber'' \<Longrightarrow>
   o_class od \<in> {QgsProcessingOutputVectorLayer, QgsProcessingOutputRasterLayer} \<Longrightarrow>
   parse_output_definition e od alg lg =
     (Inr (ComplexOutput \<lparr>ok_identifier = o_name od, ok_title = o_description od,
                          ok_abstract = o_description od, ok_data_type = None,
                          ok_supported_formats = Some
                            [Format (Some ''application/x-ogc-wms''),
                             Format (Some (if o_class od = QgsProcessingOutputVectorLayer
                                           then ''application/x-ogc-wfs'' else ''application/x-ogc-wcs''))],
                          ok_as_reference = Some (PBool True)\<rparr>), lg)"
  by (auto simp add: parse_output_definition_def parse_literal_output_def parse_layer_output_def
      OUTPUT_LAYER_TYPES_def)

text \<open>
  The third branch of the layer matcher, WMS only, sits behind the test against
  \<open>OUTPUT_LAYER_TYPES\<close>, which admits the vector and the raster class alone: no
  descriptor reaches it.
\<close>

lemma layer_output_wms_only_unreachable:
  "parse_layer_output od kw \<noteq>
     Some (ComplexOutput (kw\<lparr>ok_supported_formats := Some [Format (Some ''application/x-ogc-wms'')],
                             ok_as_reference := Some (PBool True)\<rparr>))"
proof -
  have "ok_supported_formats (kw\<lparr>ok_supported_formats := Some fs, ok_as_reference := r\<rparr>) = Some fs"
    for fs r by simp
  then show ?thesis
    by (auto simp add: parse_layer_output_def OUTPUT_LAYER_TYPES_def dest!: arg_cong [where f = ok_supported_formats])
qed

text \<open>
  C7.  A vector layer output advertises WMS and WFS, a raster layer output WMS and WCS,
  both as references (\<open>layer_output_translation\<close>).  Any other layer output is not
  translated to a WMS-only output: a generic map-layer output, of type \<^verbatim>\<open>outputLayer\<close>,
  passes no matcher and the translation fails with \<open>ProcessingOutputTypeNotSupported\<close>.
\<close>

theorem map_layer_output_unsupported:
  "parse_output_definition e (od\<lparr>o_class := QgsProcessingOutputMapLayer, o_type := ''outputLayer''\<rparr>) alg lg =
     (Inl (ProcessingOutputTypeNotSupported (Msg ''%s'' [AStr ''outputLayer''])), lg)"
  by (simp add: parse_output_definition_def parse_literal_output_def parse_layer_output_def
      OUTPUT_LAYER_TYPES_def parse_file_output_def)

text \<open>
  C6.  An HTML output is translated to a Complex output with the HTML MIME type as its
  single format, but without an \<^verbatim>\<open>as_reference\<close> argument: the translation is the same
  whatever the configured \<^verbatim>\<open>outputfile_as_reference\<close> is, so the mode of the output
  does not follow the configuration.
\<close>

theorem html_output_ignores_configuration:
  "parse_output_definition (e\<lparr>outputfile_as_reference := b\<rparr>)
     (od\<lparr>o_class := QgsProcessingOutputHtml, o_type := ''outputHtml''\<rparr>) alg lg =
     (Inr (ComplexOutput \<lparr>ok_identifier = o_name od, ok_title = o_description od,
                          ok_abstract = o_description od, ok_data_type = None,
                          ok_supported_formats = Some [Format (types_map e ''.html'')],
                          ok_as_reference = None\<rparr>), lg)"
  by (simp add: parse_output_definition_def parse_literal_output_def parse_layer_output_def
      OUTPUT_LAYER_TYPES_def parse_file_output_def)

text \<open>
  The sibling branch for a generic file output does pass the mode on: with no paired
  input it is the configured default.
\<close>

lemma file_output_follows_configuration:
  "parse_output_definition e (od\<lparr>o_class := QgsProcessingOutputFile, o_type := ''outputFile''\<rparr>) None lg =
     (Inr (ComplexOutput \<lparr>ok_identifier = o_name od, ok_title = o_description od,
                          ok_abstract = o_description od, ok_data_type = None,
                          ok_supported_formats = Some [Format (Some ''application/octet-stream'')],
                          ok_as_reference = Some (PBool (outputfile_as_reference e))\<rparr>),
      lg @ [LogWarning (Msg ''Cannot set file type for output %s'' [AStr (o_name od)])])"
  by (simp add: parse_output_definition_def parse_literal_output_def parse_layer_output_def
      OUTPUT_LAYER_TYPES_def parse_file_output_def)

section \<open>Layer specifications: the scheme\<close>








section \<open>The input translator: optional flag and cardinality\<close>

lemma map_sum_id_Inr: "map_sum id f x = Inr y \<longleftrightarrow> (\<exists>z. x = Inr z \<and> y = f z)"
  by (cases x) auto

text \<open>Each matcher leaves \<^verbatim>\<open>min_occurs\<close> as the shared preprocessing set it.\<close>

lemma literal_min_occurs:
  "parse_literal_input p kw = Inr (Some inp) \<Longrightarrow> kw_min_occurs (input_kwargs inp) = kw_min_occurs kw"
  by (auto simp add: parse_literal_input_def Let_def enum_default_def field_type_name_def map_sum_id_Inr
      split: if_splits sum.splits pyval.splits list.splits field_type.splits)

lemma allowed_layers_min_occurs:
  "parse_allowed_layers p kw c = Inr kw' \<Longrightarrow> p_type p \<noteq> ''multilayer'' \<Longrightarrow>
   kw_min_occurs kw' = kw_min_occurs kw"
  by (auto simp add: parse_allowed_layers_def Let_def split: sum.splits option.splits if_splits)

lemma layer_min_occurs:
  "parse_layer_input p kw c = Inr (Some inp) \<Longrightarrow>
   \<not> (p_class p \<in> set INPUT_LAYER_TYPES \<and> p_type p = ''multilayer'') \<Longrightarrow>
   kw_min_occurs (input_kwargs inp) = kw_min_occurs kw"
  by (auto simp add: parse_layer_input_def map_sum_id_Inr dest: allowed_layers_min_occurs
      split: if_splits sum.splits)

lemma extent_min_occurs:
  "parse_extent_input p kw = Some inp \<Longrightarrow> kw_min_occurs (input_kwargs inp) = kw_min_occurs kw"
  by (auto simp add: parse_extent_input_def split: if_splits)

lemma file_min_occurs:
  "parse_file_input e p kw = Some inp \<Longrightarrow> kw_min_occurs (input_kwargs inp) = kw_min_occurs kw"
  by (auto simp add: parse_file_input_def Let_def split: if_splits option.splits)

lemma point_min_occurs:
  "parse_point_input p kw = Some inp \<Longrightarrow> kw_min_occurs (input_kwargs inp) = kw_min_occurs kw"
  by (auto simp add: parse_point_input_def split: if_splits)

lemma metadata_min_occurs:
  "kw_min_occurs (input_kwargs (with_kwargs (parse_metadata p) inp)) = kw_min_occurs (input_kwargs inp)"
  by (cases inp) (simp_all add: parse_metadata_def)

text \<open>
  The one matcher that overrides the cardinality: a multi-layer input takes its minimum
  from the descriptor's minimum number of inputs, whatever the optional flag says.
\<close>

lemma multilayer_min_occurs:
  "parse_allowed_layers p kw c = Inr kw' \<Longrightarrow> p_type p = ''multilayer'' \<Longrightarrow>
   kw_min_occurs kw' = Some (if p_minimumNumberInputs p \<ge> 1 then p_minimumNumberInputs p else 0)"
  by (auto simp add: parse_allowed_layers_def Let_def split: sum.splits option.splits if_splits)

text \<open>
  C3.  For every descriptor the translator supports, other than a multi-layer input
  (where the minimum number of inputs overrides the cardinality), the translated input
  has \<^verbatim>\<open>min_occurs\<close> 0 exactly when the descriptor carries the optional flag, and 1
  otherwise.
\<close>

theorem optional_min_occurs:
  assumes "parse_input_definition e p alg c = Inr inp"
      and "\<not> (p_class p \<in> set INPUT_LAYER_TYPES \<and> p_type p = ''multilayer'')"
  shows "(min_occurs inp = 0 \<longleftrightarrow> is_optional p) \<and> min_occurs inp = (if is_optional p then 0 else 1)"
proof -
  define kw where "kw = \<lparr>kw_identifier = p_name p,
                kw_title = replace_char (CHR ''_'') (CHR '' '') (p_name p),
                kw_abstract = p_description p,
                kw_metadata = [Metadata ''processing:type'' (MStr (p_type p))],
                kw_default = unwrap_default (p_defaultValue p),
                kw_min_occurs = (if is_optional p then Some 0 else None),
                kw_max_occurs = None, kw_data_type = None, kw_allowed_values = None,
                kw_supported_formats = None, kw_crss = None\<rparr>"
  have m: "kw_min_occurs kw = (if is_optional p then Some 0 else None)"
    by (simp add: kw_def)
  from assms(1) obtain inp0 where inp: "inp = with_kwargs (parse_metadata p) inp0"
    and disj: "parse_literal_input p kw = Inr (Some inp0)
       \<or> parse_layer_input p kw c = Inr (Some inp0)
       \<or> parse_extent_input p kw = Some inp0
       \<or> parse_file_input e p kw = Some inp0
       \<or> parse_point_input p kw = Some inp0"
    unfolding parse_input_definition_def Let_def kw_def [symmetric]
    by (auto split: sum.splits option.splits)
  from disj assms(2) have "kw_min_occurs (input_kwargs inp0) = kw_min_occurs kw"
    by (auto dest: literal_min_occurs layer_min_occurs extent_min_occurs file_min_occurs point_min_occurs)
  with m inp show ?thesis
    by (simp add: min_occurs_def metadata_min_occurs)
qed

lemma demo_string_translation:
  "parse_input_definition demo_env (demo_param\<lparr>p_type := ''string'', p_flags := f\<rparr>) None None =
     Inr (LiteralInput
       \<lparr>kw_identifier = ''METHOD'', kw_title = ''METHOD'', kw_abstract = ''Method'',
        kw_metadata = [Metadata ''processing:type'' (MStr ''string'')],
        kw_default = PInt 1,
        kw_min_occurs = (if is_optional (demo_param\<lparr>p_type := ''string'', p_flags := f\<rparr>) then Some 0 else None),
        kw_max_occurs = None, kw_data_type = Some ''string'', kw_allowed_values = None,
        kw_supported_formats = None, kw_crss = None\<rparr>)"
  by (simp add: parse_input_definition_def parse_literal_input_def Let_def parse_metadata_def
      demo_param_def replace_char_def unwrap_default_def)

theorem optional_min_occurs_witness:
  "is_optional (demo_param\<lparr>p_type := ''string'', p_flags := 8\<rparr>)
   \<and> (\<exists>inp. parse_input_definition demo_env (demo_param\<lparr>p_type := ''string'', p_flags := 8\<rparr>) None None = Inr inp
            \<and> min_occurs inp = 0)
   \<and> \<not> is_optional (demo_param\<lparr>p_type := ''string'', p_flags := 2\<rparr>)
   \<and> (\<exists>inp. parse_input_definition demo_env (demo_param\<lparr>p_type := ''string'', p_flags := 2\<rparr>) None None = Inr inp
            \<and> min_occurs inp = 1)"
proof -
  have o: "is_optional (demo_param\<lparr>p_type := ''string'', p_flags := 8\<rparr>)"
    by (simp add: is_optional_def FlagOptional_def)
  have n: "\<not> is_optional (demo_param\<lparr>p_type := ''string'', p_flags := 2\<rparr>)"
    by (simp add: is_optional_def FlagOptional_def)
  have t: "p_type (demo_param\<lparr>p_type := ''string'', p_flags := f\<rparr>) \<noteq> ''multilayer''" for f
    by simp
  from optional_min_occurs [OF demo_string_translation [of 8]]
       optional_min_occurs [OF demo_string_translation [of 2]] o n t
  show ?thesis
    using demo_string_translation by auto
qed

section \<open>Enumerations: index to option and back\<close>

text \<open>\<^verbatim>\<open>list.index\<close> finds the first position of a value, and every member has one.\<close>

lemma nth_mem_take:
  assumes "i < j" and "j \<le> length xs"
  shows "xs ! i \<in> set (take j xs)"
proof -
  from assms have "i < length (take j xs)" by simp
  then have "take j xs ! i \<in> set (take j xs)" by (rule nth_mem)
  with assms(1) show ?thesis by simp
qed

lemma index_of_Some:
  "index_of x xs = Some j \<Longrightarrow> j < length xs \<and> xs ! j = x \<and> x \<notin> set (take j xs)"
proof (induction xs arbitrary: j)
  case Nil
  then show ?case by simp
next
  case (Cons y ys)
  show ?case
  proof (cases "y = x")
    case True
    with Cons.prems show ?thesis by simp
  next
    case False
    with Cons.prems obtain k where k: "index_of x ys = Some k" "j = Suc k"
      by auto
    from Cons.IH [OF k(1)] False k(2) show ?thesis by simp
  qed
qed

lemma index_of_member: "x \<in> set xs \<Longrightarrow> \<exists>j. index_of x xs = Some j"
  by (induction xs) auto

lemma index_of_nth:
  assumes "i < length xs"
  shows "\<exists>j\<le>i. index_of (xs ! i) xs = Some j \<and> xs ! j = xs ! i \<and> xs ! i \<notin> set (take j xs)"
proof -
  from assms have "xs ! i \<in> set xs" by simp
  then obtain j where j: "index_of (xs ! i) xs = Some j"
    using index_of_member by fastforce
  from index_of_Some [OF j] have p: "j < length xs" "xs ! j = xs ! i" "xs ! i \<notin> set (take j xs)"
    by simp_all
  have "j \<le> i"
  proof (rule ccontr)
    assume "\<not> j \<le> i"
    then have "i < j" by simp
    with p(1) have "xs ! i \<in> set (take j xs)"
      by (simp add: nth_mem_take)
    with p(3) show False by simp
  qed
  with j p show ?thesis by blast
qed

lemma index_of_nth_iff:
  assumes "i < length xs"
  shows "index_of (xs ! i) xs = Some i \<longleftrightarrow> xs ! i \<notin> set (take i xs)"
proof
  assume "index_of (xs ! i) xs = Some i"
  from index_of_Some [OF this] show "xs ! i \<notin> set (take i xs)" by simp
next
  assume n: "xs ! i \<notin> set (take i xs)"
  from index_of_nth [OF assms] obtain j where j: "j \<le> i" "index_of (xs ! i) xs = Some j" "xs ! j = xs ! i"
    by blast
  have "j = i"
  proof (rule ccontr)
    assume "j \<noteq> i"
    with j(1) have "j < i" by simp
    with assms have "xs ! j \<in> set (take i xs)"
      by (simp add: nth_mem_take)
    with n j(3) show False by simp
  qed
  with j(2) show "index_of (xs ! i) xs = Some i" by simp
qed
lemma enum_translation_default:
  assumes "p_type p = ''enum''" and "p_defaultValue p = PInt i"
      and "0 \<le> i" and "i < int (length (p_options p))"
  shows "map_sum id (\<lambda>inp. kw_default (input_kwargs inp)) (parse_input_definition e p a c) =
           Inr (PStr (p_options p ! nat i))"
  using assms
  by (simp add: parse_input_definition_def parse_literal_input_def Let_def enum_default_def
      option_at_def getitem_def parse_metadata_def)

lemma enum_decoding:
  assumes "parameterDefinition alg ident = Some p"
      and "p_class p \<notin> set DESTINATION_LAYER_TYPES"
      and "p_class p \<noteq> QgsProcessingParameterFeatureSource"
      and "p_class p \<notin> set INPUT_LAYER_TYPES"
      and "p_class p \<noteq> QgsProcessingParameterPoint"
      and "p_type p = ''enum''"
  shows "input_to_processing e ident [v] alg ctx lg =
           (map_sum id (\<lambda>j. (p_name p, PyValue (PInt j))) (options_index (p_options p) (data v)),
            alg, ctx, lg)"
  using assms by (simp add: input_to_processing_def Let_def first_input_def)

text \<open>
  C1.  For an enum descriptor with options \<open>O\<close> and native default \<open>i\<close> in range, the
  translator advertises \<open>O[i]\<close> as the default.  Decoding that string gives the first
  index \<open>j\<close> at which \<open>O[i]\<close> occurs in \<open>O\<close>; it is \<open>i\<close> again exactly when \<open>O[i]\<close> does
  not occur before position \<open>i\<close>, as in every option list without duplicates.
\<close>

theorem enum_default_roundtrip:
  assumes "p_type p = ''enum''" and "p_defaultValue p = PInt i"
      and "0 \<le> i" and "i < int (length (p_options p))"
      and "parameterDefinition alg ident = Some p"
      and "p_class p \<notin> set DESTINATION_LAYER_TYPES"
      and "p_class p \<noteq> QgsProcessingParameterFeatureSource"
      and "p_class p \<notin> set INPUT_LAYER_TYPES"
      and "p_class p \<noteq> QgsProcessingParameterPoint"
      and "data v = PStr (p_options p ! nat i)"
  shows "map_sum id (\<lambda>inp. kw_default (input_kwargs inp)) (parse_input_definition e p a c) =
           Inr (PStr (p_options p ! nat i))
       \<and> (\<exists>j. 0 \<le> j \<and> j \<le> i
              \<and> input_to_processing e ident [v] alg ctx lg = (Inr (p_name p, PyValue (PInt j)), alg, ctx, lg)
              \<and> p_options p ! nat j = p_options p ! nat i
              \<and> p_options p ! nat i \<notin> set (take (nat j) (p_options p)))
       \<and> (input_to_processing e ident [v] alg ctx lg = (Inr (p_name p, PyValue (PInt i)), alg, ctx, lg)
            \<longleftrightarrow> p_options p ! nat i \<notin> set (take (nat i) (p_options p)))"
proof -
  let ?O = "p_options p"
  have lt: "nat i < length ?O" using assms(3,4) by simp
  from index_of_nth [OF lt] obtain j where j: "j \<le> nat i" "index_of (?O ! nat i) ?O = Some j"
      "?O ! j = ?O ! nat i" "?O ! nat i \<notin> set (take j ?O)"
    by blast
  have dec: "input_to_processing e ident [v] alg ctx lg = (Inr (p_name p, PyValue (PInt (int j))), alg, ctx, lg)"
    using enum_decoding [OF assms(5-9) assms(1), of e v ctx lg] j(2) assms(10)
    by (simp add: options_index_def)
  have "0 \<le> int j \<and> int j \<le> i
          \<and> input_to_processing e ident [v] alg ctx lg = (Inr (p_name p, PyValue (PInt (int j))), alg, ctx, lg)
          \<and> ?O ! nat (int j) = ?O ! nat i \<and> ?O ! nat i \<notin> set (take (nat (int j)) ?O)"
    using j dec assms(3) by simp
  then have ex: "\<exists>j. 0 \<le> j \<and> j \<le> i
              \<and> input_to_processing e ident [v] alg ctx lg = (Inr (p_name p, PyValue (PInt j)), alg, ctx, lg)
              \<and> ?O ! nat j = ?O ! nat i \<and> ?O ! nat i \<notin> set (take (nat j) ?O)"
    by blast
  have "int j = i \<longleftrightarrow> j = nat i" using assms(3) by auto
  with dec j(2) index_of_nth_iff [OF lt]
  have iff: "input_to_processing e ident [v] alg ctx lg = (Inr (p_name p, PyValue (PInt i)), alg, ctx, lg)
            \<longleftrightarrow> ?O ! nat i \<notin> set (take (nat i) ?O)"
    by simp
  from enum_translation_default [OF assms(1-4)] ex iff show ?thesis by blast
qed


lemma demo_param_dispatch:
  "p_class (demo_param\<lparr>p_type := t, p_name := n, p_flags := f, p_options := os, p_defaultValue := d\<rparr>)
     \<notin> set DESTINATION_LAYER_TYPES"
  "p_class (demo_param\<lparr>p_type := t, p_name := n, p_flags := f, p_options := os, p_defaultValue := d\<rparr>)
     \<noteq> QgsProcessingParameterFeatureSource"
  "p_class (demo_param\<lparr>p_type := t, p_name := n, p_flags := f, p_options := os, p_defaultValue := d\<rparr>)
     \<notin> set INPUT_LAYER_TYPES"
  "p_class (demo_param\<lparr>p_type := t, p_name := n, p_flags := f, p_options := os, p_defaultValue := d\<rparr>)
     \<noteq> QgsProcessingParameterPoint"
  by (simp_all add: demo_param_def DESTINATION_LAYER_TYPES_def INPUT_LAYER_TYPES_def
      INPUT_VECTOR_LAYER_TYPES_def INPUT_RASTER_LAYER_TYPES_def INPUT_OTHER_LAYER_TYPES_def)

lemma demo_alg_lookup: "parameterDefinition (demo_alg p) (p_name p) = Some p"
  by (simp add: demo_alg_def)

theorem enum_default_roundtrip_witness:
  "map_sum id (\<lambda>inp. kw_default (input_kwargs inp))
     (parse_input_definition demo_env
        (demo_param\<lparr>p_type := ''enum'', p_name := ''METHOD'', p_flags := 0,
                    p_options := [''nearest'', ''linear'', ''cubic''], p_defaultValue := PInt 2\<rparr>)
        None None) = Inr (PStr ''cubic'')
   \<and> input_to_processing demo_env ''METHOD'' [demo_value ''cubic'']
        (demo_alg (demo_param\<lparr>p_type := ''enum'', p_name := ''METHOD'', p_flags := 0,
                    p_options := [''nearest'', ''linear'', ''cubic''], p_defaultValue := PInt 2\<rparr>))
        demo_context [] =
       (Inr (''METHOD'', PyValue (PInt 2)),
        demo_alg (demo_param\<lparr>p_type := ''enum'', p_name := ''METHOD'', p_flags := 0,
                    p_options := [''nearest'', ''linear'', ''cubic''], p_defaultValue := PInt 2\<rparr>),
        demo_context, [])"
proof -
  let ?p = "demo_param\<lparr>p_type := ''enum'', p_name := ''METHOD'', p_flags := 0,
                    p_options := [''nearest'', ''linear'', ''cubic''], p_defaultValue := PInt 2\<rparr>"
  have f: "p_type ?p = ''enum''" "p_defaultValue ?p = PInt 2" "(0::int) \<le> 2"
      "2 < int (length (p_options ?p))" "p_name ?p = ''METHOD''"
      "data (demo_value ''cubic'') = PStr (p_options ?p ! nat 2)"
    by (simp_all add: demo_value_def)
  have l: "parameterDefinition (demo_alg ?p) ''METHOD'' = Some ?p"
    using demo_alg_lookup [of ?p] by simp
  have n: "p_options ?p ! nat 2 \<notin> set (take (nat 2) (p_options ?p))"
    by simp
  from enum_default_roundtrip [OF f(1-4) l demo_param_dispatch f(6), of demo_env None None demo_context "[]"] n
  show ?thesis
    by (simp add: f(5))
qed

text \<open>
  With the option \<^verbatim>\<open>a\<close> listed twice and the native default 1, the advertised default
  is \<^verbatim>\<open>a\<close> and decoding \<^verbatim>\<open>a\<close> gives the index 0.
\<close>

theorem enum_roundtrip_counterexample:
  "p_type demo_param = ''enum'' \<and> p_options demo_param = [''a'', ''a'']
   \<and> p_defaultValue demo_param = PInt 1
   \<and> parse_input_definition demo_env demo_param None None =
       Inr (LiteralInput
         \<lparr>kw_identifier = ''METHOD'', kw_title = ''METHOD'', kw_abstract = ''Method'',
          kw_metadata = [Metadata ''processing:type'' (MStr ''enum'')],
          kw_default = PStr ''a'', kw_min_occurs = None, kw_max_occurs = Some 1,
          kw_data_type = Some ''string'', kw_allowed_values = Some (AllowedValues [''a'', ''a'']),
          kw_supported_formats = None, kw_crss = None\<rparr>)
   \<and> input_to_processing demo_env ''METHOD'' [demo_value ''a''] (demo_alg demo_param) demo_context [] =
       (Inr (''METHOD'', PyValue (PInt 0)), demo_alg demo_param, demo_context, [])
   \<and> input_to_processing demo_env ''METHOD'' [demo_value ''a''] (demo_alg demo_param) demo_context [] \<noteq>
       (Inr (''METHOD'', PyValue (PInt 1)), demo_alg demo_param, demo_context, [])"
proof -
  have f: "p_type demo_param = ''enum''" "p_options demo_param = [''a'', ''a'']"
      "p_defaultValue demo_param = PInt 1" "p_name demo_param = ''METHOD''"
    by (simp_all add: demo_param_def)
  have o: "\<not> is_optional demo_param"
    by (simp add: is_optional_def FlagOptional_def demo_param_def)
  have t: "parse_input_definition demo_env demo_param None None =
       Inr (LiteralInput
         \<lparr>kw_identifier = ''METHOD'', kw_title = ''METHOD'', kw_abstract = ''Method'',
          kw_metadata = [Metadata ''processing:type'' (MStr ''enum'')],
          kw_default = PStr ''a'', kw_min_occurs = None, kw_max_occurs = Some 1,
          kw_data_type = Some ''string'', kw_allowed_values = Some (AllowedValues [''a'', ''a'']),
          kw_supported_formats = None, kw_crss = None\<rparr>)"
    using o
    by (simp add: parse_input_definition_def parse_literal_input_def Let_def enum_default_def
        option_at_def getitem_def parse_metadata_def demo_param_def replace_char_def unwrap_default_def)
  have l: "parameterDefinition (demo_alg demo_param) ''METHOD'' = Some demo_param"
    using demo_alg_lookup [of demo_param] by (simp add: f)
  have c: "p_class demo_param \<notin> set DESTINATION_LAYER_TYPES"
      "p_class demo_param \<noteq> QgsProcessingParameterFeatureSource"
      "p_class demo_param \<notin> set INPUT_LAYER_TYPES"
      "p_class demo_param \<noteq> QgsProcessingParameterPoint"
    by (simp_all add: demo_param_def DESTINATION_LAYER_TYPES_def INPUT_LAYER_TYPES_def
        INPUT_VECTOR_LAYER_TYPES_def INPUT_RASTER_LAYER_TYPES_def INPUT_OTHER_LAYER_TYPES_def)
  have d: "input_to_processing demo_env ''METHOD'' [demo_value ''a''] (demo_alg demo_param) demo_context [] =
       (Inr (''METHOD'', PyValue (PInt 0)), demo_alg demo_param, demo_context, [])"
    using enum_decoding [OF l c f(1), of demo_env "demo_value ''a''" demo_context "[]"]
    by (simp add: f options_index_def demo_value_def)
  from t d f show ?thesis by simp
qed

section \<open>The decoder: destination sinks\<close>

lemma plain_class_dispatch:
  assumes "p_class p \<in> {QgsProcessingParameterDefinition, QgsProcessingParameterFileDestination,
                        QgsProcessingParameterFile, QgsProcessingParameterField,
                        QgsProcessingParameterNumber}"
  shows "p_class p \<notin> set DESTINATION_LAYER_TYPES"
    and "p_class p \<noteq> QgsProcessingParameterFeatureSource"
    and "p_class p \<notin> set INPUT_LAYER_TYPES"
    and "p_class p \<noteq> QgsProcessingParameterPoint"
  using assms
  by (auto simp add: DESTINATION_LAYER_TYPES_def INPUT_LAYER_TYPES_def
      INPUT_VECTOR_LAYER_TYPES_def INPUT_RASTER_LAYER_TYPES_def INPUT_OTHER_LAYER_TYPES_def)

text \<open>
  With nothing submitted the sink branch raises on \<^verbatim>\<open>inp[0]\<close>, after the descriptor was
  already forced to file-based output.
\<close>

lemma destination_sink_no_value:
  assumes "parameterDefinition alg ident = Some prm"
      and "p_class prm \<in> set DESTINATION_LAYER_TYPES"
  shows "input_to_processing e ident [] alg ctx lg =
           (Inl IndexError,
            alg\<lparr>parameterDefinition :=
                  (parameterDefinition alg)(ident \<mapsto> prm\<lparr>p_supportsNonFileBasedOutput := False\<rparr>)\<rparr>,
            ctx, lg)"
  using assms by (simp add: input_to_processing_def Let_def first_input_def)

text \<open>
  C2.  For a feature sink, a vector destination or a raster destination and any
  submitted value, the decoder switches non-file-based output off on the descriptor and
  returns an output-layer definition whose sink is \<^verbatim>\<open>./<name>.<extension>\<close>, built from
  the parameter name and the default file extension alone, so it ends with that
  extension; the submitted datum is the destination name and nothing else.
\<close>

theorem destination_sink_decoding:
  assumes "parameterDefinition alg ident = Some prm"
      and "p_class prm \<in> set DESTINATION_LAYER_TYPES"
  shows "input_to_processing e ident (v # rest) alg ctx lg =
           (Inr (p_name prm,
                 QgsProcessingOutputLayerDefinition
                   (''./'' @ p_name prm @ ''.'' @ p_defaultFileExtension prm)
                   (destination_project ctx) (data v)),
            alg\<lparr>parameterDefinition :=
                  (parameterDefinition alg)(ident \<mapsto> prm\<lparr>p_supportsNonFileBasedOutput := False\<rparr>)\<rparr>,
            ctx, lg)
       \<and> suffix (''.'' @ p_defaultFileExtension prm) (''./'' @ p_name prm @ ''.'' @ p_defaultFileExtension prm)
       \<and> suffix (p_defaultFileExtension prm) (''./'' @ p_name prm @ ''.'' @ p_defaultFileExtension prm)"
proof -
  have "suffix (''.'' @ p_defaultFileExtension prm) ((''./'' @ p_name prm) @ ''.'' @ p_defaultFileExtension prm)"
    by (rule suffix_appendI) simp
  moreover have "suffix (p_defaultFileExtension prm) ((''./'' @ p_name prm @ ''.'') @ p_defaultFileExtension prm)"
    by (rule suffix_appendI) simp
  ultimately show ?thesis
    using assms by (simp add: input_to_processing_def Let_def first_input_def)
qed

theorem destination_sink_decoding_witness:
  "input_to_processing demo_env ''OUTPUT'' [demo_value ''../../My result'']
     (demo_alg (demo_param\<lparr>p_class := QgsProcessingParameterFeatureSink, p_type := ''sink'',
                           p_name := ''OUTPUT''\<rparr>))
     demo_context [] =
   (Inr (''OUTPUT'',
         QgsProcessingOutputLayerDefinition ''./OUTPUT.gpkg'' (QgsProject ''destination'')
           (PStr ''../../My result'')),
    (demo_alg (demo_param\<lparr>p_class := QgsProcessingParameterFeatureSink, p_type := ''sink'',
                           p_name := ''OUTPUT''\<rparr>))
      \<lparr>parameterDefinition :=
         [''OUTPUT'' \<mapsto> demo_param\<lparr>p_class := QgsProcessingParameterFeatureSink, p_type := ''sink'',
                                     p_name := ''OUTPUT'', p_supportsNonFileBasedOutput := False\<rparr>]\<rparr>,
    demo_context, [])"
proof -
  let ?p = "demo_param\<lparr>p_class := QgsProcessingParameterFeatureSink, p_type := ''sink'',
                        p_name := ''OUTPUT''\<rparr>"
  have l: "parameterDefinition (demo_alg ?p) ''OUTPUT'' = Some ?p"
    using demo_alg_lookup [of ?p] by simp
  have c: "p_class ?p \<in> set DESTINATION_LAYER_TYPES"
    by (simp add: DESTINATION_LAYER_TYPES_def)
  from destination_sink_decoding [OF l c, of demo_env "demo_value ''../../My result''" "[]" demo_context "[]"]
  show ?thesis
    by (simp add: demo_param_def demo_alg_def demo_value_def demo_context_def)
qed

section \<open>The decoder: file and folder destinations\<close>

lemma basename_no_slash: "CHR ''/'' \<notin> set (basename p)"
  using set_takeWhileD [of "CHR ''/''" "\<lambda>c. c \<noteq> CHR ''/''" "rev p"] by (auto simp add: basename_def)



section \<open>The decoder: fallback\<close>

text \<open>
  C9.  A parameter that reaches the fallback with no submitted value is decoded to
  \<^verbatim>\<open>None\<close> without an error, and the warning is logged exactly when the parameter is
  not optional; with a submitted value the data of the first one is returned as it is.
\<close>

theorem fallback_decoding:
  assumes "parameterDefinition alg ident = Some prm"
      and "p_class prm \<notin> set DESTINATION_LAYER_TYPES"
      and "p_class prm \<noteq> QgsProcessingParameterFeatureSource"
      and "p_class prm \<notin> set INPUT_LAYER_TYPES"
      and "p_class prm \<noteq> QgsProcessingParameterPoint"
      and "p_type prm \<notin> {''enum'', ''extent'', ''crs'', ''fileDestination'', ''folderDestination'', ''file''}"
  shows "input_to_processing e ident [] alg ctx lg =
           (Inr (p_name prm, PyValue PNone), alg, ctx,
            if is_optional prm then lg
            else lg @ [LogWarning (Msg ''Required input %s has no value'' [AStr ident])])
       \<and> input_to_processing e ident (v # rest) alg ctx lg =
           (Inr (p_name prm, PyValue (data v)), alg, ctx, lg)"
  using assms by (simp add: input_to_processing_def Let_def)

theorem fallback_decoding_witness:
  "input_to_processing demo_env ''TEXT'' []
     (demo_alg (demo_param\<lparr>p_type := ''string'', p_name := ''TEXT''\<rparr>)) demo_context [] =
   (Inr (''TEXT'', PyValue PNone),
    demo_alg (demo_param\<lparr>p_type := ''string'', p_name := ''TEXT''\<rparr>), demo_context,
    [LogWarning (Msg ''Required input %s has no value'' [AStr ''TEXT''])])
   \<and> input_to_processing demo_env ''TEXT'' []
     (demo_alg (demo_param\<lparr>p_type := ''string'', p_name := ''TEXT'', p_flags := 8\<rparr>)) demo_context [] =
   (Inr (''TEXT'', PyValue PNone),
    demo_alg (demo_param\<lparr>p_type := ''string'', p_name := ''TEXT'', p_flags := 8\<rparr>), demo_context, [])
   \<and> input_to_processing demo_env ''TEXT'' [demo_value ''hello'']
     (demo_alg (demo_param\<lparr>p_type := ''string'', p_name := ''TEXT''\<rparr>)) demo_context [] =
   (Inr (''TEXT'', PyValue (PStr ''hello'')),
    demo_alg (demo_param\<lparr>p_type := ''string'', p_name := ''TEXT''\<rparr>), demo_context, [])"
proof -
  let ?p = "demo_param\<lparr>p_type := ''string'', p_name := ''TEXT''\<rparr>"
  let ?q = "demo_param\<lparr>p_type := ''string'', p_name := ''TEXT'', p_flags := 8\<rparr>"
  have l: "parameterDefinition (demo_alg ?p) ''TEXT'' = Some ?p"
      "parameterDefinition (demo_alg ?q) ''TEXT'' = Some ?q"
    using demo_alg_lookup [of ?p] demo_alg_lookup [of ?q] by simp_all
  have c: "p_class ?p \<in> {QgsProcessingParameterDefinition, QgsProcessingParameterFileDestination,
                        QgsProcessingParameterFile, QgsProcessingParameterField,
                        QgsProcessingParameterNumber}"
      "p_class ?q \<in> {QgsProcessingParameterDefinition, QgsProcessingParameterFileDestination,
                        QgsProcessingParameterFile, QgsProcessingParameterField,
                        QgsProcessingParameterNumber}"
    by (simp_all add: demo_param_def)
  have t: "p_type ?p \<notin> {''enum'', ''extent'', ''crs'', ''fileDestination'', ''folderDestination'', ''file''}"
      "p_type ?q \<notin> {''enum'', ''extent'', ''crs'', ''fileDestination'', ''folderDestination'', ''file''}"
    by simp_all
  have o: "\<not> is_optional ?p" "is_optional ?q"
    by (simp_all add: is_optional_def FlagOptional_def demo_param_def)
  from fallback_decoding [OF l(1) plain_class_dispatch [OF c(1)] t(1),
         of demo_env demo_context "[]" "demo_value ''hello''" "[]"]
       fallback_decoding [OF l(2) plain_class_dispatch [OF c(2)] t(2),
         of demo_env demo_context "[]" "demo_value ''hello''" "[]"] o
  show ?thesis
    by (simp add: demo_value_def)
qed

section \<open>Layer specifications: selection\<close>




lemma demo_dem_url:
  "py_urlparse ''layer:dem?select=pop+%3E+100'' =
     Inr \<lparr>scheme = ''layer'', netloc = [], path = ''dem'', params = [],
          query = ''select=pop+%3E+100'', fragment = []\<rparr>"
  by code_simp

lemma demo_select_query:
  "py_parse_qs ''select=pop+%3E+100'' = [(''select'', [''pop > 100''])]"
  by code_simp




text \<open>
  C10.  With selection enabled, a \<^verbatim>\<open>rect\<close> or \<^verbatim>\<open>select\<close> parameter in the query and an
  existing target layer, a specification that is parsed successfully always comes back
  with \<open>has_selection\<close> true.  When the layer is not a vector layer the parser does
  return, with a warning and with the context as it was: no feature is selected, and
  the feature source that the decoder builds is still marked selected-features-only.
\<close>

theorem selection_flag_without_selection:
  assumes "urlparse e spec = Inr u"
      and "parse_layer_spec e spec ctx False lg = (Inr (p, False), ctx, lg)"
      and "dict_get (parse_qs e (query u)) ''rect'' \<noteq> [] \<or> dict_get (parse_qs e (query u)) ''select'' \<noteq> []"
      and "getMapLayer ctx p = Some lyr"
      and "parameterDefinition alg ident = Some prm"
      and "p_class prm = QgsProcessingParameterFeatureSource"
      and "data v = PStr spec"
  shows "(parse_layer_spec e spec ctx True lg = (Inr (q, hs), ctx', lg') \<longrightarrow> q = p \<and> hs)
       \<and> (l_type lyr \<noteq> VectorLayer \<longrightarrow>
            parse_layer_spec e spec ctx True lg =
              (Inr (p, True), ctx, lg @ [LogWarning (Msg ''Can apply selection only to vector layer'' [])])
          \<and> input_to_processing e ident (v # rest) alg ctx lg =
              (Inr (p_name prm, QgsProcessingFeatureSourceDefinition p True), alg, ctx,
               lg @ [LogWarning (Msg ''Can apply selection only to vector layer'' [])]))"
proof -
  have a: "parse_layer_spec e spec ctx True lg = (Inr (q, hs), ctx', lg') \<longrightarrow> q = p \<and> hs"
    using assms(1-4)
    by (auto simp add: parse_layer_spec_def Let_def split: sum.splits if_splits prod.splits)
  have b: "parse_layer_spec e spec ctx True lg =
           (Inr (p, True), ctx, lg @ [LogWarning (Msg ''Can apply selection only to vector layer'' [])])"
    if "l_type lyr \<noteq> VectorLayer"
    using assms(1-4) that by (auto simp add: parse_layer_spec_def Let_def split: sum.splits if_splits)
  have c: "input_to_processing e ident (v # rest) alg ctx lg =
              (Inr (p_name prm, QgsProcessingFeatureSourceDefinition p True), alg, ctx,
               lg @ [LogWarning (Msg ''Can apply selection only to vector layer'' [])])"
    if "l_type lyr \<noteq> VectorLayer"
    using b [OF that] assms(5-7)
    by (simp add: input_to_processing_def Let_def first_input_def DESTINATION_LAYER_TYPES_def
        parse_layer_spec_data_def)
  from a b c show ?thesis by blast
qed

theorem selection_flag_without_selection_witness:
  "input_to_processing demo_env ''INPUT'' [demo_value ''layer:dem?select=pop+%3E+100'']
     (demo_alg (demo_param\<lparr>p_class := QgsProcessingParameterFeatureSource, p_type := ''source'',
                           p_name := ''INPUT''\<rparr>))
     demo_context [] =
   (Inr (''INPUT'', QgsProcessingFeatureSourceDefinition ''dem'' True),
    demo_alg (demo_param\<lparr>p_class := QgsProcessingParameterFeatureSource, p_type := ''source'',
                          p_name := ''INPUT''\<rparr>),
    demo_context,
    [LogWarning (Msg ''Can apply selection only to vector layer'' [])])
   \<and> parse_layer_spec demo_env ''layer:dem?select=pop+%3E+100'' demo_context True [] =
     (Inr (''dem'', True), demo_context,
      [LogWarning (Msg ''Can apply selection only to vector layer'' [])])"
proof -
  let ?s = "''layer:dem?select=pop+%3E+100''"
  let ?u = "\<lparr>scheme = ''layer'', netloc = [], path = ''dem'', params = [],
             query = ''select=pop+%3E+100'', fragment = []\<rparr>"
  let ?p = "demo_param\<lparr>p_class := QgsProcessingParameterFeatureSource, p_type := ''source'',
                        p_name := ''INPUT''\<rparr>"
  have u: "urlparse demo_env ?s = Inr ?u"
    by (simp add: demo_env_def demo_dem_url)
  have n: "parse_layer_spec demo_env ?s demo_context False [] = (Inr (''dem'', False), demo_context, [])"
    using u by (simp add: parse_layer_spec_def)
  have g: "dict_get (parse_qs demo_env (query ?u)) ''rect'' \<noteq> []
           \<or> dict_get (parse_qs demo_env (query ?u)) ''select'' \<noteq> []"
    by (simp add: demo_env_def demo_select_query dict_get_def)
  have m: "getMapLayer demo_context ''dem'' = Some (demo_layer\<lparr>l_name := ''dem'', l_type := RasterLayer\<rparr>)"
    by (simp add: demo_context_def)
  have l: "parameterDefinition (demo_alg ?p) ''INPUT'' = Some ?p"
    using demo_alg_lookup [of ?p] by simp
  have c: "p_class ?p = QgsProcessingParameterFeatureSource"
    by simp
  have d: "data (demo_value ?s) = PStr ?s"
    by (simp add: demo_value_def)
  from selection_flag_without_selection [OF u n g m l c d, of "''dem''" True demo_context "[]" "[]"]
  show ?thesis
    by simp
qed

end
